theory Spec2Isabelle
  imports Complex_Main
begin

section \<open>Dates and the eligibility windows (server/sync-service.ts)\<close>

text \<open>
  A JavaScript \<open>Date\<close> is modelled by its wall-clock reading in milliseconds, an
  integer, in the server's time zone taken with a fixed UTC offset (no daylight-saving
  change inside the days looked at). Under that reading \<open>getTime()\<close> differences are
  differences of these integers, and the local calendar day of \<open>d\<close> is
  \<open>d div 86400000\<close>.
\<close>

type_synonym Date = int

definition startOfDay :: "Date \<Rightarrow> Date" where
  "startOfDay d = d - d mod 86400000"

text \<open>\<open>d.setHours(h, m, 0, 0)\<close>: the day of \<open>d\<close> with the time of day replaced;
  hours past 23 run over into the following days, as in JavaScript.\<close>

definition setHours :: "Date \<Rightarrow> int \<Rightarrow> int \<Rightarrow> Date" where
  "setHours d h m = startOfDay d + h * 3600000 + m * 60000"

text \<open>date-fns: \<open>isSameDay\<close> compares the starts of the two days, \<open>isAfter\<close> and
  \<open>isBefore\<close> are the strict comparisons of the two instants.\<close>

definition isSameDay :: "Date \<Rightarrow> Date \<Rightarrow> bool" where
  "isSameDay a b = (startOfDay a = startOfDay b)"

definition isAfter :: "Date \<Rightarrow> Date \<Rightarrow> bool" where
  "isAfter a b = (a > b)"

definition isBefore :: "Date \<Rightarrow> Date \<Rightarrow> bool" where
  "isBefore a b = (a < b)"

record game =
  game_id :: string
  sport :: string
  opponent :: string
  date :: Date
  time :: string
  location :: string
  isHome :: string

subsection \<open>The regular expression \<open>/(\d+):(\d+)\s*(AM|PM)/i\<close>\<close>

text \<open>
  Strings are lists of code units below 256. \<open>\d\<close> is an ASCII digit, \<open>\s\<close> is
  one of the white-space code units of that range. Each of \<open>\d+\<close>, \<open>\d+\<close>,
  \<open>\s*\<close> is followed by something its own class excludes, so the greedy choice is the
  only one that can match and no backtracking is needed; the match is the leftmost one.
\<close>

definition isDigit :: "char \<Rightarrow> bool" where
  "isDigit c = (48 \<le> (of_char c :: nat) \<and> (of_char c :: nat) \<le> 57)"

definition isSpace :: "char \<Rightarrow> bool" where
  "isSpace c = ((of_char c :: nat) \<in> {9, 10, 11, 12, 13, 32, 160})"

definition toUpperCase :: "string \<Rightarrow> string" where
  "toUpperCase s =
     map (\<lambda>c. if 97 \<le> (of_char c :: nat) \<and> (of_char c :: nat) \<le> 122
              then char_of ((of_char c :: nat) - 32) else c) s"

definition parseInt :: "string \<Rightarrow> int" where
  "parseInt s = foldl (\<lambda>n c. 10 * n + (int (of_char c) - 48)) 0 s"

definition matchTimeAt :: "string \<Rightarrow> (string \<times> string \<times> string) option" where
  "matchTimeAt s =
     (let h = takeWhile isDigit s; r1 = dropWhile isDigit s in
      if h = [] then None
      else (case r1 of
              [] \<Rightarrow> None
            | c # r2 \<Rightarrow>
                if c \<noteq> CHR '':'' then None
                else (let m = takeWhile isDigit r2;
                          r3 = dropWhile isSpace (dropWhile isDigit r2) in
                      if m = [] then None
                      else (case r3 of
                              [] \<Rightarrow> None
                            | a # r4 \<Rightarrow>
                               (case r4 of
                                  [] \<Rightarrow> None
                                | b # _ \<Rightarrow>
                                    if toUpperCase [a, b] = ''AM'' \<or> toUpperCase [a, b] = ''PM''
                                    then Some (h, m, [a, b]) else None)))))"

fun timeMatch :: "string \<Rightarrow> (string \<times> string \<times> string) option" where
  "timeMatch [] = None"
| "timeMatch (c # cs) =
     (case matchTimeAt (c # cs) of
        Some r \<Rightarrow> Some r
      | None \<Rightarrow> timeMatch cs)"

text \<open>Lines 319-333 (and again 505-516): the start of the game.\<close>

definition gameDateTime :: "game \<Rightarrow> Date" where
  "gameDateTime g =
     (case timeMatch (time g) of
        None \<Rightarrow> date g
      | Some (h, m, ap) \<Rightarrow>
          (let hours = parseInt h;
               minutes = parseInt m;
               isPM = (toUpperCase ap = ''PM'');
               hours1 = (if isPM \<and> hours \<noteq> 12 then hours + 12 else hours);
               hours2 = (if \<not> isPM \<and> hours1 = 12 then 0 else hours1)
           in setHours (date g) hours2 minutes))"

text \<open>
  Line 338. The quotient is a JavaScript number; the dividend is an integer and the
  divisor the constant 3600000, so the rounded quotient compares with 21 and with 27 as
  the exact one does (the nearest other quotient is \<open>1/3600000\<close> away, far more than the
  rounding error), and the exact quotient is what is written here.
\<close>

definition timeDiffHours :: "Date \<Rightarrow> Date \<Rightarrow> real" where
  "timeDiffHours gdt now = real_of_int (gdt - now) / (1000 * 60 * 60)"

definition needs24HourNotification :: "Date \<Rightarrow> Date \<Rightarrow> bool" where
  "needs24HourNotification gdt now =
     (timeDiffHours gdt now > 21 \<and> timeDiffHours gdt now \<le> 27)"

definition morningStart :: "Date \<Rightarrow> Date" where
  "morningStart now = setHours now 8 0"

definition morningEnd :: "Date \<Rightarrow> Date" where
  "morningEnd now = setHours now 9 0"

definition needsMorningNotification :: "Date \<Rightarrow> Date \<Rightarrow> bool" where
  "needsMorningNotification gdt now =
     (isSameDay gdt now \<and> isAfter now (morningStart now) \<and> isBefore now (morningEnd now))"

section \<open>The notification ledger (server/storage.ts, shared/schema.ts)\<close>

text \<open>
  A row of \<open>sent_notifications\<close>. \<open>status\<close> is a text column; \<open>createdAt\<close> is
  \<open>notNull\<close>, so the test \<open>record.createdAt &&\<close> of the source always passes and is
  not written. The generated primary key is a number taken from a counter.
\<close>

record sentNotification =
  nid :: nat
  gameId :: string
  subscriptionId :: string
  notificationType :: string
  status :: string
  createdAt :: Date
  sentAt :: "Date option"

record subscription =
  sub_id :: string
  email :: string
  sub_sports :: "string list"
  unsubscribeToken :: string

record pushSubscription =
  push_id :: string
  fcmToken :: string
  push_sports :: "string list"

record world =
  games :: "game list"
  subscriptions :: "subscription list"
  pushSubscriptions :: "pushSubscription list"
  sentNotifications :: "sentNotification list"
  nextId :: nat
  clock :: Date

text \<open>
  The calls that leave the process. A storage call is named by its function and its
  arguments; the three statements of \<open>tryRecordNotificationAtomically\<close> are three
  points, since other workers can act between them.
\<close>

datatype call =
    GetAllGames
  | GetAllSubscriptions
  | GetAllPushSubscriptions
  | TryRecord string string string
  | TryRecordSelect string string string
  | TryRecordUpdate string string string
  | MarkSending string string string
  | MarkSent string string string
  | DeleteRecord string string string
  | DeletePushSubscriptionByToken string
  | SendEmail string string string
  | SendPush string string string

datatype 'a res = Ok 'a | Err string

datatype outcome = Returned bool | Threw string

text \<open>
  What the process does not decide: \<open>storageFails c\<close> is the error (other than the
  unique violation 23505) with which the storage call \<open>c\<close> is rejected, if it is,
  before it has changed anything (one such point for each storage function; in
  \<open>tryRecordNotificationAtomically\<close> it is the insert that raises it);
  \<open>others c\<close> is what concurrent workers and the passing of time have done to the
  database when \<open>c\<close> executes (the identity when the pass runs alone);
  \<open>emailSend\<close> is the outcome of \<open>send24HourReminder\<close> / \<open>sendGameDayReminder\<close>
  (kind, address, game, unsubscribe token); \<open>messagingSend\<close> is the outcome of
  Firebase's \<open>messaging.send\<close> for a token, title and body: \<open>None\<close> when it
  resolves, the error's \<open>code\<close> when it rejects.
\<close>

record env =
  storageFails :: "call \<Rightarrow> string option"
  others :: "call \<Rightarrow> world \<Rightarrow> world"
  emailSend :: "string \<Rightarrow> string \<Rightarrow> game \<Rightarrow> string \<Rightarrow> outcome"
  messagingSend :: "string \<Rightarrow> string \<Rightarrow> string \<Rightarrow> string option"

definition keyMatches :: "string \<Rightarrow> string \<Rightarrow> string \<Rightarrow> sentNotification \<Rightarrow> bool" where
  "keyMatches g s t r = (gameId r = g \<and> subscriptionId r = s \<and> notificationType r = t)"

text \<open>\<open>db.insert(sentNotifications).values({..., status: 'pending'})\<close> under the
  constraint \<open>unique_notification\<close>: \<open>None\<close> is the unique violation 23505.\<close>

definition insertPending :: "string \<Rightarrow> string \<Rightarrow> string \<Rightarrow> world \<Rightarrow> world option" where
  "insertPending g s t w =
     (if filter (keyMatches g s t) (sentNotifications w) \<noteq> [] then None
      else Some (w\<lparr>sentNotifications := sentNotifications w @
                     [\<lparr>nid = nextId w, gameId = g, subscriptionId = s, notificationType = t,
                       status = ''pending'', createdAt = clock w, sentAt = None\<rparr>],
                   nextId := Suc (nextId w)\<rparr>))"

text \<open>\<open>db.update(...).set(...).where(...).returning()\<close> and
  \<open>db.delete(...).where(...).returning()\<close>: the rows affected and the new table.\<close>

definition updateWhere ::
  "(sentNotification \<Rightarrow> bool) \<Rightarrow> (sentNotification \<Rightarrow> sentNotification) \<Rightarrow> world
    \<Rightarrow> sentNotification list \<times> world" where
  "updateWhere p f w =
     (map f (filter p (sentNotifications w)),
      w\<lparr>sentNotifications := map (\<lambda>r. if p r then f r else r) (sentNotifications w)\<rparr>)"

definition deleteWhere ::
  "(sentNotification \<Rightarrow> bool) \<Rightarrow> world \<Rightarrow> sentNotification list \<times> world" where
  "deleteWhere p w =
     (filter p (sentNotifications w),
      w\<lparr>sentNotifications := filter (\<lambda>r. \<not> p r) (sentNotifications w)\<rparr>)"

text \<open>The two reclaiming updates of lines 617-626 and 642-651, for the loaded
  \<open>record\<close> and the threshold computed from the clock.\<close>

definition reclaimSending :: "sentNotification \<Rightarrow> Date \<Rightarrow> Date \<Rightarrow> world
    \<Rightarrow> sentNotification list \<times> world" where
  "reclaimSending record fiveMinutesAgo now w =
     updateWhere
       (\<lambda>r. nid r = nid record \<and> status r = ''sending'' \<and> createdAt r < fiveMinutesAgo)
       (\<lambda>r. r\<lparr>status := ''pending'', createdAt := now\<rparr>) w"

definition reclaimPending :: "sentNotification \<Rightarrow> Date \<Rightarrow> Date \<Rightarrow> world
    \<Rightarrow> sentNotification list \<times> world" where
  "reclaimPending record fiveMinutesAgo now w =
     updateWhere
       (\<lambda>r. nid r = nid record \<and> status r = ''pending'' \<and> createdAt r < fiveMinutesAgo)
       (\<lambda>r. r\<lparr>createdAt := now\<rparr>) w"

definition tryRecordNotificationAtomically ::
  "env \<Rightarrow> string \<Rightarrow> string \<Rightarrow> string \<Rightarrow> world \<Rightarrow> bool res \<times> world" where
  "tryRecordNotificationAtomically e g s t w0 =
     (let w = others e (TryRecord g s t) w0 in
      case storageFails e (TryRecord g s t) of
        Some error \<Rightarrow> (Err error, w)
      | None \<Rightarrow>
         (case insertPending g s t w of
            Some w' \<Rightarrow> (Ok True, w')
          | None \<Rightarrow>
             (let w1 = others e (TryRecordSelect g s t) w;
                  existing = filter (keyMatches g s t) (sentNotifications w1) in
              case existing of
                [] \<Rightarrow> (Ok False, w1)
              | record # _ \<Rightarrow>
                  (let fiveMinutesAgo = clock w1 - 5 * 60 * 1000;
                       w2 = others e (TryRecordUpdate g s t) w1 in
                   if status record = ''sent'' then (Ok False, w1)
                   else if status record = ''sending'' \<and> createdAt record < fiveMinutesAgo
                   then (let (claimResult, w3) =
                               reclaimSending record fiveMinutesAgo (clock w1) w2
                         in (Ok (length claimResult > 0), w3))
                   else if status record = ''pending'' \<and> createdAt record < fiveMinutesAgo
                   then (let (claimResult, w3) =
                               reclaimPending record fiveMinutesAgo (clock w1) w2
                         in (Ok (length claimResult > 0), w3))
                   else (Ok False, w1)))))"

definition markNotificationSending ::
  "env \<Rightarrow> string \<Rightarrow> string \<Rightarrow> string \<Rightarrow> world \<Rightarrow> bool res \<times> world" where
  "markNotificationSending e g s t w0 =
     (let w = others e (MarkSending g s t) w0 in
      case storageFails e (MarkSending g s t) of
        Some error \<Rightarrow> (Err error, w)
      | None \<Rightarrow>
         (let (result, w') =
                updateWhere (\<lambda>r. keyMatches g s t r \<and> status r = ''pending'')
                  (\<lambda>r. r\<lparr>status := ''sending'', createdAt := clock w\<rparr>) w
          in (Ok (length result > 0), w')))"

definition markNotificationSent ::
  "env \<Rightarrow> string \<Rightarrow> string \<Rightarrow> string \<Rightarrow> world \<Rightarrow> bool res \<times> world" where
  "markNotificationSent e g s t w0 =
     (let w = others e (MarkSent g s t) w0 in
      case storageFails e (MarkSent g s t) of
        Some error \<Rightarrow> (Err error, w)
      | None \<Rightarrow>
         (let (result, w') =
                updateWhere (keyMatches g s t)
                  (\<lambda>r. r\<lparr>status := ''sent'', sentAt := Some (clock w)\<rparr>) w
          in (Ok (length result > 0), w')))"

definition deleteNotificationRecord ::
  "env \<Rightarrow> string \<Rightarrow> string \<Rightarrow> string \<Rightarrow> world \<Rightarrow> bool res \<times> world" where
  "deleteNotificationRecord e g s t w0 =
     (let w = others e (DeleteRecord g s t) w0 in
      case storageFails e (DeleteRecord g s t) of
        Some error \<Rightarrow> (Err error, w)
      | None \<Rightarrow>
         (let (result, w') = deleteWhere (keyMatches g s t) w
          in (Ok (length result > 0), w')))"

definition deletePushSubscriptionByToken :: "env \<Rightarrow> string \<Rightarrow> world \<Rightarrow> bool res \<times> world" where
  "deletePushSubscriptionByToken e token w0 =
     (let w = others e (DeletePushSubscriptionByToken token) w0 in
      case storageFails e (DeletePushSubscriptionByToken token) of
        Some error \<Rightarrow> (Err error, w)
      | None \<Rightarrow>
         (Ok (length (filter (\<lambda>p. fcmToken p = token) (pushSubscriptions w)) > 0),
          w\<lparr>pushSubscriptions := filter (\<lambda>p. fcmToken p \<noteq> token) (pushSubscriptions w)\<rparr>))"

definition getAllGames :: "env \<Rightarrow> world \<Rightarrow> game list res \<times> world" where
  "getAllGames e w0 =
     (let w = others e GetAllGames w0 in
      case storageFails e GetAllGames of
        Some error \<Rightarrow> (Err error, w)
      | None \<Rightarrow> (Ok (games w), w))"

definition getAllSubscriptions :: "env \<Rightarrow> world \<Rightarrow> subscription list res \<times> world" where
  "getAllSubscriptions e w0 =
     (let w = others e GetAllSubscriptions w0 in
      case storageFails e GetAllSubscriptions of
        Some error \<Rightarrow> (Err error, w)
      | None \<Rightarrow> (Ok (subscriptions w), w))"

definition getAllPushSubscriptions :: "env \<Rightarrow> world \<Rightarrow> pushSubscription list res \<times> world" where
  "getAllPushSubscriptions e w0 =
     (let w = others e GetAllPushSubscriptions w0 in
      case storageFails e GetAllPushSubscriptions of
        Some error \<Rightarrow> (Err error, w)
      | None \<Rightarrow> (Ok (pushSubscriptions w), w))"

section \<open>Push delivery (server/firebase-admin.ts)\<close>

text \<open>\<open>sendPushNotification\<close> catches every error of its body and answers
  \<open>false\<close>, after the two token codes as after any other.\<close>

definition sendPushNotification :: "env \<Rightarrow> string \<Rightarrow> string \<Rightarrow> string \<Rightarrow> bool" where
  "sendPushNotification e token title body =
     (case messagingSend e token title body of
        None \<Rightarrow> True
      | Some code \<Rightarrow>
          if code = ''messaging/registration-token-not-registered'' \<or>
             code = ''messaging/invalid-registration-token''
          then False
          else False)"

section \<open>The notification pass (\<open>checkAndSendNotifications\<close>, server/sync-service.ts)\<close>

record notificationCheck =
  gamesIn24Hours :: nat
  gamesMorningOf :: nat
  emailsSent :: nat
  skippedDuplicates :: nat
  errors :: "string list"

text \<open>The state of a pass: the database, the \<open>result\<close> object, and the list of the
  calls made so far (kept to state in which order the pass calls out).\<close>

record pstate =
  db :: world
  result :: notificationCheck
  calls :: "call list"

definition called :: "call \<Rightarrow> world \<Rightarrow> pstate \<Rightarrow> pstate" where
  "called c w st = st\<lparr>db := w, calls := calls st @ [c]\<rparr>"

definition pushError :: "string \<Rightarrow> pstate \<Rightarrow> pstate" where
  "pushError errMsg st = st\<lparr>result := (result st)\<lparr>errors := errors (result st) @ [errMsg]\<rparr>\<rparr>"

definition countSent :: "pstate \<Rightarrow> pstate" where
  "countSent st = st\<lparr>result := (result st)\<lparr>emailsSent := emailsSent (result st) + 1\<rparr>\<rparr>"

definition countSkipped :: "pstate \<Rightarrow> pstate" where
  "countSkipped st =
     st\<lparr>result := (result st)\<lparr>skippedDuplicates := skippedDuplicates (result st) + 1\<rparr>\<rparr>"

text \<open>A \<open>for ... of\<close> loop whose body may throw: \<open>Some error\<close> is the exception
  leaving the loop, with the state reached.\<close>

fun forEach :: "('a \<Rightarrow> 's \<Rightarrow> string option \<times> 's) \<Rightarrow> 'a list \<Rightarrow> 's \<Rightarrow> string option \<times> 's" where
  "forEach body [] st = (None, st)"
| "forEach body (x # xs) st =
     (case body x st of
        (Some error, st') \<Rightarrow> (Some error, st')
      | (None, st') \<Rightarrow> forEach body xs st')"

text \<open>
  The body of the loops of lines 359-425 (\<open>kind = '24hour'\<close>, \<open>send24HourReminder\<close>)
  and 430-496 (\<open>kind = 'gameday'\<close>, \<open>sendGameDayReminder\<close>), which are the same text
  up to the kind and the sender. \<open>deleteNotificationRecord\<close> is called outside any
  inner \<open>try\<close>, so its error leaves the loop.
\<close>

definition notifyEmail ::
  "env \<Rightarrow> string \<Rightarrow> game \<Rightarrow> subscription \<Rightarrow> pstate \<Rightarrow> string option \<times> pstate" where
  "notifyEmail e kind gm subscriber st =
     (let g = game_id gm; s = sub_id subscriber in
      case tryRecordNotificationAtomically e g s kind (db st) of
        (Err error, w1) \<Rightarrow>
          (None, pushError (''Failed to record notification for '' @ email subscriber @ '': '' @ error)
                   (called (TryRecord g s kind) w1 st))
      | (Ok shouldSend, w1) \<Rightarrow>
          (let st1 = called (TryRecord g s kind) w1 st in
           if \<not> shouldSend then (None, countSkipped st1)
           else
             (case markNotificationSending e g s kind (db st1) of
                (Err markError, w2) \<Rightarrow>
                  (None, pushError (''Failed to mark notification as sending for '' @
                                    email subscriber @ '': '' @ markError)
                           (called (MarkSending g s kind) w2 st1))
              | (Ok _, w2) \<Rightarrow>
                  (let st2 = called (MarkSending g s kind) w2 st1;
                       st3 = called (SendEmail kind (email subscriber) g) (db st2) st2 in
                   case emailSend e kind (email subscriber) gm (unsubscribeToken subscriber) of
                     Threw emailError \<Rightarrow>
                       (case deleteNotificationRecord e g s kind (db st3) of
                          (Err error, w4) \<Rightarrow> (Some error, called (DeleteRecord g s kind) w4 st3)
                        | (Ok _, w4) \<Rightarrow>
                            (None, pushError (''Email send threw error for '' @ email subscriber @
                                              '': '' @ emailError @ '' - will retry'')
                                     (called (DeleteRecord g s kind) w4 st3)))
                   | Returned emailSent \<Rightarrow>
                       if \<not> emailSent then
                         (case deleteNotificationRecord e g s kind (db st3) of
                            (Err error, w4) \<Rightarrow> (Some error, called (DeleteRecord g s kind) w4 st3)
                          | (Ok _, w4) \<Rightarrow>
                              (None, pushError (''Email delivery failed for '' @ email subscriber @
                                                '' - will retry on next check'')
                                       (called (DeleteRecord g s kind) w4 st3)))
                       else
                         (case markNotificationSent e g s kind (db st3) of
                            (Err markError, w4) \<Rightarrow>
                              (None, countSent
                                       (pushError (''Email sent to '' @ email subscriber @
                                                   '' but mark-sent failed: '' @ markError)
                                          (called (MarkSent g s kind) w4 st3)))
                          | (Ok _, w4) \<Rightarrow>
                              (None, countSent (called (MarkSent g s kind) w4 st3)))))))"

text \<open>Lines 318-498: one game of the email loop.\<close>

definition processGameEmail ::
  "env \<Rightarrow> Date \<Rightarrow> subscription list \<Rightarrow> game \<Rightarrow> pstate \<Rightarrow> string option \<times> pstate" where
  "processGameEmail e now subs gm st =
     (let needs24Hour = needs24HourNotification (gameDateTime gm) now;
          needsMorning = needsMorningNotification (gameDateTime gm) now in
      if \<not> needs24Hour \<and> \<not> needsMorning then (None, st)
      else
        (let interestedSubscribers = filter (\<lambda>sub. sport gm \<in> set (sub_sports sub)) subs in
         case (if needs24Hour
               then forEach (notifyEmail e ''24hour'' gm) interestedSubscribers
                      (st\<lparr>result := (result st)\<lparr>gamesIn24Hours := gamesIn24Hours (result st) + 1\<rparr>\<rparr>)
               else (None, st)) of
           (Some error, st1) \<Rightarrow> (Some error, st1)
         | (None, st1) \<Rightarrow>
             if needsMorning
             then forEach (notifyEmail e ''gameday'' gm) interestedSubscribers
                    (st1\<lparr>result := (result st1)\<lparr>gamesMorningOf := gamesMorningOf (result st1) + 1\<rparr>\<rparr>)
             else (None, st1)))"

text \<open>Lines 526-559: one push target of one game. The error of
  \<open>tryRecordNotificationAtomically\<close> is swallowed; the other storage calls are not
  guarded, so their errors leave the loops.\<close>

definition notifyPush ::
  "env \<Rightarrow> bool \<Rightarrow> game \<Rightarrow> pushSubscription \<Rightarrow> pstate \<Rightarrow> string option \<times> pstate" where
  "notifyPush e needs24Hour gm pushSub st =
     (let g = game_id gm; s = push_id pushSub;
          notifType = (if needs24Hour then ''24hour-push'' else ''gameday-push'') in
      case tryRecordNotificationAtomically e g s notifType (db st) of
        (Err error, w1) \<Rightarrow> (None, called (TryRecord g s notifType) w1 st)
      | (Ok shouldSend, w1) \<Rightarrow>
          (let st1 = called (TryRecord g s notifType) w1 st in
           if \<not> shouldSend then (None, st1)
           else
             (let locationText = (if isHome gm = ''home'' then ''Home - '' @ location gm
                                  else ''Away - '' @ location gm);
                  title = (if needs24Hour then ''Game Tomorrow: '' @ sport gm
                           else ''Game Today: '' @ sport gm);
                  body = ''Lakers vs '' @ opponent gm @ '' at '' @ time gm @ '' | '' @ locationText;
                  st2 = called (SendPush (fcmToken pushSub) title body) (db st1) st1;
                  success = sendPushNotification e (fcmToken pushSub) title body in
              if success then
                (case markNotificationSent e g s notifType (db st2) of
                   (Err error, w3) \<Rightarrow> (Some error, called (MarkSent g s notifType) w3 st2)
                 | (Ok _, w3) \<Rightarrow> (None, countSent (called (MarkSent g s notifType) w3 st2)))
              else
                (case deleteNotificationRecord e g s notifType (db st2) of
                   (Err error, w3) \<Rightarrow> (Some error, called (DeleteRecord g s notifType) w3 st2)
                 | (Ok _, w3) \<Rightarrow>
                     (let st3 = called (DeleteRecord g s notifType) w3 st2 in
                      case deletePushSubscriptionByToken e (fcmToken pushSub) (db st3) of
                        (Err error, w4) \<Rightarrow>
                          (Some error, called (DeletePushSubscriptionByToken (fcmToken pushSub)) w4 st3)
                      | (Ok _, w4) \<Rightarrow>
                          (None, called (DeletePushSubscriptionByToken (fcmToken pushSub)) w4 st3))))))"

definition processGamePush ::
  "env \<Rightarrow> Date \<Rightarrow> pushSubscription list \<Rightarrow> game \<Rightarrow> pstate \<Rightarrow> string option \<times> pstate" where
  "processGamePush e now pushSubs gm st =
     (let needs24Hour = needs24HourNotification (gameDateTime gm) now;
          needsMorning = needsMorningNotification (gameDateTime gm) now in
      if \<not> needs24Hour \<and> \<not> needsMorning then (None, st)
      else forEach (notifyPush e needs24Hour gm)
             (filter (\<lambda>sub. sport gm \<in> set (push_sports sub)) pushSubs) st)"

text \<open>Lines 500-565: the push part, inside its own \<open>try\<close>.\<close>

definition pushPhase :: "env \<Rightarrow> Date \<Rightarrow> game list \<Rightarrow> pstate \<Rightarrow> pstate" where
  "pushPhase e now gms st =
     (case getAllPushSubscriptions e (db st) of
        (Err pushErr, w) \<Rightarrow>
          pushError (''Push notification error: '' @ pushErr) (called GetAllPushSubscriptions w st)
      | (Ok pushSubs, w) \<Rightarrow>
          (let st1 = called GetAllPushSubscriptions w st in
           if length pushSubs > 0 then
             (case forEach (processGamePush e now pushSubs) gms st1 of
                (Some pushErr, st2) \<Rightarrow> pushError (''Push notification error: '' @ pushErr) st2
              | (None, st2) \<Rightarrow> st2)
           else st1))"

definition checkAndSendNotifications :: "env \<Rightarrow> world \<Rightarrow> pstate" where
  "checkAndSendNotifications e w0 =
     (let st0 = \<lparr>db = w0,
                 result = \<lparr>gamesIn24Hours = 0, gamesMorningOf = 0, emailsSent = 0,
                           skippedDuplicates = 0, errors = []\<rparr>,
                 calls = []\<rparr> in
      case getAllGames e (db st0) of
        (Err error, w1) \<Rightarrow> pushError (''System error: '' @ error) (called GetAllGames w1 st0)
      | (Ok gms, w1) \<Rightarrow>
          (let st1 = called GetAllGames w1 st0 in
           case getAllSubscriptions e (db st1) of
             (Err error, w2) \<Rightarrow>
               pushError (''System error: '' @ error) (called GetAllSubscriptions w2 st1)
           | (Ok subs, w2) \<Rightarrow>
               (let st2 = called GetAllSubscriptions w2 st1 in
                if length subs = 0 then st2
                else
                  (let now = clock (db st2) in
                   case forEach (processGameEmail e now subs) gms st2 of
                     (Some error, st3) \<Rightarrow> pushError (''System error: '' @ error) st3
                   | (None, st3) \<Rightarrow> pushPhase e now gms st3))))"

section \<open>Status transitions\<close>

text \<open>
  How one row may differ before and after a ledger operation: \<open>forwardStep\<close> keeps the
  row's identity and key and leaves the status where it is or moves it along
  pending, sending, sent; \<open>staleReclaimStep\<close> is the reset of a row that has been
  \<open>'sending'\<close> for more than five minutes.
\<close>

definition forwardStep :: "sentNotification \<Rightarrow> sentNotification \<Rightarrow> bool" where
  "forwardStep r r' =
     (nid r' = nid r \<and> gameId r' = gameId r \<and> subscriptionId r' = subscriptionId r \<and>
      notificationType r' = notificationType r \<and>
      (status r' = status r \<or> status r' = ''sent'' \<or>
       (status r = ''pending'' \<and> status r' = ''sending'')))"

definition staleReclaimStep :: "Date \<Rightarrow> sentNotification \<Rightarrow> sentNotification \<Rightarrow> bool" where
  "staleReclaimStep now r r' =
     (nid r' = nid r \<and> gameId r' = gameId r \<and> subscriptionId r' = subscriptionId r \<and>
      notificationType r' = notificationType r \<and>
      status r = ''sending'' \<and> status r' = ''pending'' \<and>
      createdAt r < now - 5 * 60 * 1000 \<and> createdAt r' = now)"

section \<open>Example data\<close>

text \<open>A pass that runs alone, on a storage and transports that work.\<close>

definition quietEnv :: env where
  "quietEnv = \<lparr>storageFails = (\<lambda>c. None), others = (\<lambda>c w. w),
               emailSend = (\<lambda>kind address gm token. Returned True),
               messagingSend = (\<lambda>token title body. None)\<rparr>"

text \<open>A football game on day 2 at 7:00 PM, that is at 241200000 ms.\<close>

definition exGame :: game where
  "exGame = \<lparr>game_id = ''g1'', sport = ''Football'', opponent = ''Essex'', date = 172800000,
             time = ''7:00 PM'', location = ''Field'', isHome = ''home''\<rparr>"

definition exSubscriber :: subscription where
  "exSubscriber = \<lparr>sub_id = ''s1'', email = ''fan@example.org'', sub_sports = [''Football''],
                   unsubscribeToken = ''u1''\<rparr>"

definition exPush :: pushSubscription where
  "exPush = \<lparr>push_id = ''p1'', fcmToken = ''tok1'', push_sports = [''Football'']\<rparr>"

text \<open>The database at 147600000 ms (day 1, 17:00), 26 hours before the game.\<close>

definition exWorld :: world where
  "exWorld = \<lparr>games = [exGame], subscriptions = [exSubscriber], pushSubscriptions = [exPush],
              sentNotifications = [], nextId = 0, clock = 147600000\<rparr>"

definition exRow :: "string \<Rightarrow> string \<Rightarrow> Date \<Rightarrow> sentNotification" where
  "exRow kind st created =
     \<lparr>nid = 0, gameId = ''g1'', subscriptionId = ''s1'', notificationType = kind,
      status = st, createdAt = created, sentAt = None\<rparr>"

definition exState :: "world \<Rightarrow> pstate" where
  "exState w = \<lparr>db = w,
                result = \<lparr>gamesIn24Hours = 0, gamesMorningOf = 0, emailsSent = 0,
                          skippedDuplicates = 0, errors = []\<rparr>,
                calls = []\<rparr>"

text \<open>The same database with the claim of \<open>s1\<close> left \<open>'sending'\<close> 300001 ms ago.\<close>

definition exStaleWorld :: world where
  "exStaleWorld =
     exWorld\<lparr>sentNotifications := [exRow ''24hour'' ''sending'' 147299999], nextId := 1\<rparr>"

text \<open>Another worker completes the same notification while this one is between its
  claim and its \<open>markNotificationSending\<close>.\<close>

definition exRaceEnv :: env where
  "exRaceEnv =
     quietEnv\<lparr>others := (\<lambda>c w. if c = MarkSending ''g1'' ''s1'' ''24hour''
                              then w\<lparr>sentNotifications :=
                                       map (\<lambda>r. r\<lparr>status := ''sent''\<rparr>) (sentNotifications w)\<rparr>
                              else w)\<rparr>"

text \<open>Firebase rejects every message with an error that is not about the token.\<close>

definition exTransientEnv :: env where
  "exTransientEnv =
     quietEnv\<lparr>messagingSend := (\<lambda>token title body. Some ''messaging/internal-error'')\<rparr>"

text \<open>The email transport answers \<open>false\<close> for every message.\<close>

definition exEmailFailEnv :: env where
  "exEmailFailEnv = quietEnv\<lparr>emailSend := (\<lambda>kind address gm token. Returned False)\<rparr>"

section \<open>Eligibility windows\<close>

lemma needs24_ms:
  "needs24HourNotification gdt now = (21 * 3600000 < gdt - now \<and> gdt - now \<le> 27 * 3600000)"
  unfolding needs24HourNotification_def timeDiffHours_def
  by (auto simp add: field_simps)

lemma morning_ms:
  "needsMorningNotification gdt now =
     (isSameDay gdt now \<and> 8 * 3600000 < now mod 86400000 \<and> now mod 86400000 < 9 * 3600000)"
  unfolding needsMorningNotification_def isAfter_def isBefore_def morningStart_def morningEnd_def
    setHours_def startOfDay_def
  by auto

lemmas regex_defs = matchTimeAt_def isDigit_def isSpace_def toUpperCase_def parseInt_def

lemma exGame_dt: "gameDateTime exGame = 241200000"
  by (simp add: gameDateTime_def exGame_def regex_defs setHours_def startOfDay_def)

text \<open>The time of day as the source reads it: the meridiem in either case, 12 AM as
  hour 0, 12 PM as hour 12, and the stored date left alone when nothing matches.\<close>

lemma char_of_upper: "char_of (80::nat) = CHR ''P''" "char_of (77::nat) = CHR ''M''"
  "char_of (65::nat) = CHR ''A''"
  by code_simp+

lemma timeMatch_examples:
  "timeMatch ''7:00 PM'' = Some (''7'', ''00'', ''PM'')"
  "timeMatch ''at 12:30pm sharp'' = Some (''12'', ''30'', ''pm'')"
  "timeMatch ''TBD'' = None"
  "timeMatch ''19:00'' = None"
  by (simp_all add: regex_defs char_of_upper)

lemma gameDateTime_examples:
  "gameDateTime (exGame\<lparr>time := ''12:15 AM''\<rparr>) = 172800000 + 15 * 60000"
  "gameDateTime (exGame\<lparr>time := ''12:15 pm''\<rparr>) = 172800000 + 12 * 3600000 + 15 * 60000"
  "gameDateTime (exGame\<lparr>time := ''TBD''\<rparr>) = 172800000"
  by (simp_all add: gameDateTime_def exGame_def regex_defs char_of_upper setHours_def startOfDay_def)

text \<open>
  C2. A game is in the 24-hour window exactly when the hours until its start are more
  than 21 and at most 27, that is when the start is more than 75600000 ms and at most
  97200000 ms away; a start at exactly now + 27h is in the window, one at exactly
  now + 21h is not, one at now + 27h01m is not.
\<close>

theorem C2_window_24h:
  "needs24HourNotification (gameDateTime g) now
     = (timeDiffHours (gameDateTime g) now > 21 \<and> timeDiffHours (gameDateTime g) now \<le> 27)
   \<and> needs24HourNotification (gameDateTime g) now
     = (21 * 3600000 < gameDateTime g - now \<and> gameDateTime g - now \<le> 27 * 3600000)
   \<and> needs24HourNotification (now + 27 * 3600000) now
   \<and> \<not> needs24HourNotification (now + 21 * 3600000) now
   \<and> \<not> needs24HourNotification (now + 27 * 3600000 + 60000) now"
proof (intro conjI)
  show "needs24HourNotification (gameDateTime g) now
     = (timeDiffHours (gameDateTime g) now > 21 \<and> timeDiffHours (gameDateTime g) now \<le> 27)"
    by (simp add: needs24HourNotification_def)
  show "needs24HourNotification (gameDateTime g) now
     = (21 * 3600000 < gameDateTime g - now \<and> gameDateTime g - now \<le> 27 * 3600000)"
    by (rule needs24_ms)
  show "needs24HourNotification (now + 27 * 3600000) now" by (simp add: needs24_ms)
  show "\<not> needs24HourNotification (now + 21 * 3600000) now" by (simp add: needs24_ms)
  show "\<not> needs24HourNotification (now + 27 * 3600000 + 60000) now" by (simp add: needs24_ms)
qed

text \<open>The example game, 26 hours and then exactly 21 hours before its start.\<close>

theorem C2_window_24h_witness:
  "needs24HourNotification (gameDateTime exGame) 147600000
   \<and> \<not> needs24HourNotification (gameDateTime exGame) 165600000"
proof -
  have a: "needs24HourNotification (gameDateTime exGame) 147600000
     = (21 * 3600000 < gameDateTime exGame - 147600000 \<and>
        gameDateTime exGame - 147600000 \<le> 27 * 3600000)"
    using C2_window_24h [of exGame 147600000] by blast
  have b: "needs24HourNotification (gameDateTime exGame) 165600000
     = (21 * 3600000 < gameDateTime exGame - 165600000 \<and>
        gameDateTime exGame - 165600000 \<le> 27 * 3600000)"
    using C2_window_24h [of exGame 165600000] by blast
  show ?thesis
    unfolding a b by (simp add: exGame_dt)
qed

text \<open>
  The start computed from the time text lies on the game's own calendar date when the
  text does not match, and when the hour and minute read from it stay within one day.
  A text such as \<open>'12:30:45 PM'\<close> is matched from its middle (\<open>30:45 PM\<close>), gives
  hour 42, and moves the start to the following day.
\<close>

lemma gameDateTime_unmatched:
  "timeMatch (time g) = None \<Longrightarrow> isSameDay (gameDateTime g) (date g)"
  by (simp add: gameDateTime_def isSameDay_def)

lemma setHours_same_day:
  "0 \<le> h * 3600000 + m * 60000 \<Longrightarrow> h * 3600000 + m * 60000 < 86400000 \<Longrightarrow>
   isSameDay (setHours d h m) d"
proof -
  assume a: "0 \<le> h * 3600000 + m * 60000" and b: "h * 3600000 + m * 60000 < 86400000"
  let ?k = "h * 3600000 + m * 60000"
  have "(d - d mod 86400000 + ?k) mod 86400000 = ?k mod 86400000"
    by (simp add: minus_mod_eq_mult_div)
  also have "\<dots> = ?k" using a b by simp
  finally have "(d - d mod 86400000 + ?k) mod 86400000 = ?k" .
  then show ?thesis
    unfolding isSameDay_def setHours_def startOfDay_def
    by (simp add: algebra_simps)
qed

lemma gameDateTime_rollover:
  "timeMatch ''12:30:45 PM'' = Some (''30'', ''45'', ''PM'')"
  "gameDateTime (exGame\<lparr>time := ''12:30:45 PM''\<rparr>) = 172800000 + 42 * 3600000 + 45 * 60000"
  "\<not> isSameDay (gameDateTime (exGame\<lparr>time := ''12:30:45 PM''\<rparr>)) (date (exGame\<lparr>time := ''12:30:45 PM''\<rparr>))"
  by (simp_all add: gameDateTime_def exGame_def regex_defs char_of_upper setHours_def startOfDay_def isSameDay_def)

text \<open>
  C4, as stated, at its lower boundary: the game's calendar date is today and the clock
  reads exactly 08:00:00.000 (201600000 ms is 08:00 of day 2), yet the game is not in
  the game-day window, because \<open>isAfter(now, morningStart)\<close> is strict.
\<close>

theorem C4_gameday_counterexample:
  "isSameDay (date exGame) 201600000 \<and> isSameDay (gameDateTime exGame) 201600000
   \<and> 201600000 mod 86400000 = (8 * 3600000 :: int)
   \<and> \<not> needsMorningNotification (gameDateTime exGame) 201600000"
  by (simp add: exGame_dt morning_ms isSameDay_def startOfDay_def) (simp add: exGame_def)

text \<open>
  C4, amended. For a game whose start, as computed from its time text, lies on the
  game's own calendar date: the game is in the game-day window exactly when the game's
  calendar date equals today and the wall-clock time is strictly after 08:00 and
  strictly before 09:00.
\<close>

theorem C4_gameday_window:
  assumes "isSameDay (gameDateTime g) (date g)"
  shows "needsMorningNotification (gameDateTime g) now
     = (isSameDay (date g) now \<and>
        8 * 3600000 < now mod 86400000 \<and> now mod 86400000 < 9 * 3600000)"
  using assms by (simp add: morning_ms isSameDay_def)

text \<open>The example game on its day, one millisecond after 08:00 and at 09:00.\<close>

theorem C4_gameday_window_witness:
  "isSameDay (gameDateTime exGame) (date exGame)
   \<and> isSameDay (date exGame) 201600001
   \<and> needsMorningNotification (gameDateTime exGame) 201600001
   \<and> \<not> needsMorningNotification (gameDateTime exGame) 205200000"
proof -
  have h: "isSameDay (gameDateTime exGame) (date exGame)"
    by (simp add: exGame_dt isSameDay_def startOfDay_def) (simp add: exGame_def)
  have d: "date exGame = 172800000" by (simp add: exGame_def)
  from C4_gameday_window [OF h, of 201600001] C4_gameday_window [OF h, of 205200000] h
  show ?thesis
    by (simp add: d isSameDay_def startOfDay_def)
qed

text \<open>
  C8. At one evaluation time a game is never in both windows: a start on today's
  calendar day, seen after 08:00, is less than 16 hours away.
\<close>

theorem C8_windows_exclusive:
  "\<not> (needs24HourNotification (gameDateTime g) now \<and>
      needsMorningNotification (gameDateTime g) now)"
proof
  assume a: "needs24HourNotification (gameDateTime g) now \<and>
             needsMorningNotification (gameDateTime g) now"
  then have d: "21 * 3600000 < gameDateTime g - now"
    by (simp add: needs24_ms)
  from a have s: "gameDateTime g - gameDateTime g mod 86400000 = now - now mod 86400000"
    and m: "8 * 3600000 < now mod 86400000"
    by (simp_all add: morning_ms isSameDay_def startOfDay_def)
  have "gameDateTime g mod 86400000 < 86400000" by simp
  with s d m show False by linarith
qed

theorem C8_windows_exclusive_witness:
  "needsMorningNotification (gameDateTime exGame) 201600001
   \<and> \<not> needs24HourNotification (gameDateTime exGame) 201600001"
  using C8_windows_exclusive [of exGame 201600001]
  by (simp add: exGame_dt morning_ms isSameDay_def startOfDay_def)

section \<open>The ledger operations\<close>

lemma updateWhere_cong:
  "(\<And>r. p r \<Longrightarrow> f r = f' r) \<Longrightarrow> updateWhere p f w = updateWhere p f' w"
  unfolding updateWhere_def
  by (simp cong: map_cong)

lemma reclaimPending_alt:
  "reclaimPending row th now w =
     updateWhere (\<lambda>r. nid r = nid row \<and> status r = ''pending'' \<and> createdAt r < th)
       (\<lambda>r. r\<lparr>status := ''pending'', createdAt := now\<rparr>) w"
  unfolding reclaimPending_def
  by (rule updateWhere_cong) simp

text \<open>
  C1. Let the insert meet an existing row of the key, and let \<open>record\<close> be the row the
  following select loads, in the database \<open>w1\<close> of that moment. If its status is
  \<open>'sent'\<close> the answer is false and the database is left as it is, whatever the age
  of the row. If its status is \<open>'pending'\<close> or \<open>'sending'\<close> and it is at most five
  minutes old, the answer is false. If it is older, the operation runs the update
  guarded by the row's id, the same status and the same staleness bound, which sets the
  status to \<open>'pending'\<close> and \<open>createdAt\<close> to the current time, on the database as
  the other workers have left it by then, and answers true exactly when that update
  affected a row.
\<close>

theorem C1_tryClaim_existing:
  assumes nofail: "storageFails e (TryRecord g s t) = None"
    and exists: "insertPending g s t (others e (TryRecord g s t) w0) = None"
    and w1: "w1 = others e (TryRecordSelect g s t) (others e (TryRecord g s t) w0)"
    and loaded: "filter (keyMatches g s t) (sentNotifications w1) = record # rest"
  shows "(status record = ''sent'' \<longrightarrow>
            tryRecordNotificationAtomically e g s t w0 = (Ok False, w1))
       \<and> ((status record = ''pending'' \<or> status record = ''sending'') \<and>
            clock w1 - createdAt record \<le> 5 * 60 * 1000 \<longrightarrow>
            tryRecordNotificationAtomically e g s t w0 = (Ok False, w1))
       \<and> ((status record = ''pending'' \<or> status record = ''sending'') \<and>
            clock w1 - createdAt record > 5 * 60 * 1000 \<longrightarrow>
            tryRecordNotificationAtomically e g s t w0 =
              (let (affected, w3) =
                     updateWhere
                       (\<lambda>r. nid r = nid record \<and> status r = status record \<and>
                             createdAt r < clock w1 - 5 * 60 * 1000)
                       (\<lambda>r. r\<lparr>status := ''pending'', createdAt := clock w1\<rparr>)
                       (others e (TryRecordUpdate g s t) w1)
               in (Ok (affected \<noteq> []), w3)))"
proof (intro conjI impI)
  assume "status record = ''sent''"
  then show "tryRecordNotificationAtomically e g s t w0 = (Ok False, w1)"
    using nofail exists w1 loaded
    by (simp add: tryRecordNotificationAtomically_def Let_def)
next
  assume "(status record = ''pending'' \<or> status record = ''sending'') \<and>
            clock w1 - createdAt record \<le> 5 * 60 * 1000"
  then show "tryRecordNotificationAtomically e g s t w0 = (Ok False, w1)"
    using nofail exists w1 loaded
    by (auto simp add: tryRecordNotificationAtomically_def Let_def)
next
  assume a: "(status record = ''pending'' \<or> status record = ''sending'') \<and>
            clock w1 - createdAt record > 5 * 60 * 1000"
  then have stale: "createdAt record < clock w1 - 5 * 60 * 1000" by simp
  from a consider "status record = ''sending''" | "status record = ''pending''" by blast
  then show "tryRecordNotificationAtomically e g s t w0 =
              (let (affected, w3) =
                     updateWhere
                       (\<lambda>r. nid r = nid record \<and> status r = status record \<and>
                             createdAt r < clock w1 - 5 * 60 * 1000)
                       (\<lambda>r. r\<lparr>status := ''pending'', createdAt := clock w1\<rparr>)
                       (others e (TryRecordUpdate g s t) w1)
               in (Ok (affected \<noteq> []), w3))"
  proof cases
    case 1
    then show ?thesis
      using nofail exists w1[symmetric] loaded stale
      by (simp add: tryRecordNotificationAtomically_def Let_def reclaimSending_def
            split: prod.splits)
  next
    case 2
    then show ?thesis
      using nofail exists w1[symmetric] loaded stale
      by (simp add: tryRecordNotificationAtomically_def Let_def reclaimPending_alt
            split: prod.splits)
  qed
qed

text \<open>The stale \<open>'sending'\<close> row of the example is reclaimed: the answer is true and
  the row is \<open>'pending'\<close> with the current time.\<close>

theorem C1_tryClaim_existing_witness:
  "tryRecordNotificationAtomically quietEnv ''g1'' ''s1'' ''24hour'' exStaleWorld =
     (Ok True, exStaleWorld\<lparr>sentNotifications := [exRow ''24hour'' ''pending'' 147600000]\<rparr>)"
proof -
  have h1: "storageFails quietEnv (TryRecord ''g1'' ''s1'' ''24hour'') = None"
    by (simp add: quietEnv_def)
  have h2: "insertPending ''g1'' ''s1'' ''24hour''
              (others quietEnv (TryRecord ''g1'' ''s1'' ''24hour'') exStaleWorld) = None"
    by (simp add: quietEnv_def insertPending_def exStaleWorld_def exWorld_def exRow_def
          keyMatches_def)
  have h3: "exStaleWorld = others quietEnv (TryRecordSelect ''g1'' ''s1'' ''24hour'')
              (others quietEnv (TryRecord ''g1'' ''s1'' ''24hour'') exStaleWorld)"
    by (simp add: quietEnv_def)
  have h4: "filter (keyMatches ''g1'' ''s1'' ''24hour'') (sentNotifications exStaleWorld) =
              exRow ''24hour'' ''sending'' 147299999 # []"
    by (simp add: exStaleWorld_def exWorld_def exRow_def keyMatches_def)
  have stale: "(status (exRow ''24hour'' ''sending'' 147299999) = ''pending'' \<or>
                status (exRow ''24hour'' ''sending'' 147299999) = ''sending'') \<and>
               clock exStaleWorld - createdAt (exRow ''24hour'' ''sending'' 147299999)
                 > 5 * 60 * 1000"
    by (simp add: exStaleWorld_def exWorld_def exRow_def)
  from C1_tryClaim_existing [OF h1 h2 h3 h4] stale
  have "tryRecordNotificationAtomically quietEnv ''g1'' ''s1'' ''24hour'' exStaleWorld =
              (let (affected, w3) =
                     updateWhere
                       (\<lambda>r. nid r = nid (exRow ''24hour'' ''sending'' 147299999) \<and>
                             status r = status (exRow ''24hour'' ''sending'' 147299999) \<and>
                             createdAt r < clock exStaleWorld - 5 * 60 * 1000)
                       (\<lambda>r. r\<lparr>status := ''pending'', createdAt := clock exStaleWorld\<rparr>)
                       (others quietEnv (TryRecordUpdate ''g1'' ''s1'' ''24hour'') exStaleWorld)
               in (Ok (affected \<noteq> []), w3))"
    by blast
  then show ?thesis
    by (simp add: updateWhere_def quietEnv_def exStaleWorld_def exWorld_def exRow_def)
qed

lemma updateWhere_rows:
  "r' \<in> set (sentNotifications (snd (updateWhere p f w))) \<Longrightarrow>
   r' \<in> set (sentNotifications w) \<or> (\<exists>r \<in> set (sentNotifications w). p r \<and> r' = f r)"
  by (auto simp add: updateWhere_def split: if_splits)

lemma forwardStep_refl: "forwardStep r r"
  by (simp add: forwardStep_def)

lemma markSending_forward:
  assumes "r' \<in> set (sentNotifications (snd (markNotificationSending e g s t w0)))"
  shows "\<exists>r \<in> set (sentNotifications (others e (MarkSending g s t) w0)). forwardStep r r'"
proof (cases "storageFails e (MarkSending g s t)")
  case (Some a)
  with assms show ?thesis
    by (auto simp add: markNotificationSending_def Let_def intro: forwardStep_refl)
next
  case None
  with assms have "r' \<in> set (sentNotifications (snd (updateWhere (\<lambda>r. keyMatches g s t r \<and> status r = ''pending'')
                  (\<lambda>r. r\<lparr>status := ''sending'', createdAt := clock (others e (MarkSending g s t) w0)\<rparr>) (others e (MarkSending g s t) w0))))"
    by (simp add: markNotificationSending_def Let_def split: prod.splits)
  from updateWhere_rows[OF this] show ?thesis
    by (auto simp add: forwardStep_def)
qed

lemma markSent_forward:
  assumes "r' \<in> set (sentNotifications (snd (markNotificationSent e g s t w0)))"
  shows "\<exists>r \<in> set (sentNotifications (others e (MarkSent g s t) w0)). forwardStep r r'"
proof (cases "storageFails e (MarkSent g s t)")
  case (Some a)
  with assms show ?thesis
    by (auto simp add: markNotificationSent_def Let_def intro: forwardStep_refl)
next
  case None
  with assms have "r' \<in> set (sentNotifications (snd (updateWhere (keyMatches g s t)
                  (\<lambda>r. r\<lparr>status := ''sent'', sentAt := Some (clock (others e (MarkSent g s t) w0))\<rparr>) (others e (MarkSent g s t) w0))))"
    by (simp add: markNotificationSent_def Let_def split: prod.splits)
  from updateWhere_rows[OF this] show ?thesis
    by (auto simp add: forwardStep_def)
qed

lemma delete_forward:
  assumes "r' \<in> set (sentNotifications (snd (deleteNotificationRecord e g s t w0)))"
  shows "r' \<in> set (sentNotifications (others e (DeleteRecord g s t) w0))"
  using assms
  by (cases "storageFails e (DeleteRecord g s t)")
     (auto simp add: deleteNotificationRecord_def deleteWhere_def Let_def)

lemma tryRecord_steps:
  assumes quiet: "others e = (\<lambda>c w. w)"
    and r': "r' \<in> set (sentNotifications (snd (tryRecordNotificationAtomically e g s t w0)))"
  shows "(\<exists>r \<in> set (sentNotifications w0). forwardStep r r' \<or> staleReclaimStep (clock w0) r r')
       \<or> (nid r' = nextId w0 \<and> keyMatches g s t r' \<and> status r' = ''pending'')"
proof (cases "storageFails e (TryRecord g s t)")
  case (Some a)
  with assms show ?thesis
    by (auto simp add: tryRecordNotificationAtomically_def Let_def intro: forwardStep_refl)
next
  case None
  show ?thesis
  proof (cases "insertPending g s t w0")
    case (Some w')
    with None quiet r' have "r' \<in> set (sentNotifications w')"
      by (simp add: tryRecordNotificationAtomically_def)
    with Some have "r' \<in> set (sentNotifications w0) \<or>
        (nid r' = nextId w0 \<and> keyMatches g s t r' \<and> status r' = ''pending'')"
      by (auto simp add: insertPending_def keyMatches_def split: if_splits)
    then show ?thesis
      using forwardStep_refl by blast
  next
    case ins: None
    show ?thesis
    proof (cases "filter (keyMatches g s t) (sentNotifications w0)")
      case Nil
      with None ins quiet r' show ?thesis
        by (auto simp add: tryRecordNotificationAtomically_def intro: forwardStep_refl)
    next
      case (Cons row rest)
      have cases3: "snd (tryRecordNotificationAtomically e g s t w0) = w0
          \<or> snd (tryRecordNotificationAtomically e g s t w0) = snd (reclaimSending row (clock w0 - 5 * 60 * 1000) (clock w0) w0)
          \<or> snd (tryRecordNotificationAtomically e g s t w0) = snd (reclaimPending row (clock w0 - 5 * 60 * 1000) (clock w0) w0)"
        using None ins quiet Cons
        by (simp add: tryRecordNotificationAtomically_def Let_def split: prod.splits)
      from cases3 r' consider
          "r' \<in> set (sentNotifications w0)"
        | "r' \<in> set (sentNotifications (snd (reclaimSending row (clock w0 - 5 * 60 * 1000) (clock w0) w0)))"
        | "r' \<in> set (sentNotifications (snd (reclaimPending row (clock w0 - 5 * 60 * 1000) (clock w0) w0)))"
        by auto
      then show ?thesis
      proof cases
        case 1
        then show ?thesis by (auto intro: forwardStep_refl)
      next
        case 2
        from updateWhere_rows[OF this[unfolded reclaimSending_def]]
        consider "r' \<in> set (sentNotifications w0)"
          | r where "r \<in> set (sentNotifications w0)" "status r = ''sending''"
              "createdAt r < clock w0 - 5 * 60 * 1000"
              "r' = r\<lparr>status := ''pending'', createdAt := clock w0\<rparr>"
          by blast
        then show ?thesis
        proof cases
          case 1
          then show ?thesis using forwardStep_refl by blast
        next
          case (2 r)
          then have "staleReclaimStep (clock w0) r r'"
            by (simp add: staleReclaimStep_def)
          with 2(1) show ?thesis by blast
        qed
      next
        case 3
        from updateWhere_rows[OF this[unfolded reclaimPending_def]]
        consider "r' \<in> set (sentNotifications w0)"
          | r where "r \<in> set (sentNotifications w0)" "r' = r\<lparr>createdAt := clock w0\<rparr>"
          by blast
        then show ?thesis
        proof cases
          case 1
          then show ?thesis using forwardStep_refl by blast
        next
          case (2 r)
          then have "forwardStep r r'"
            by (simp add: forwardStep_def)
          with 2(1) show ?thesis by blast
        qed
      qed
    qed
  qed
qed

text \<open>
  C5. In a pass that runs alone, every row that a ledger operation leaves in the table
  comes from a row that was there, with the same id and key and a status that is the
  same or further along pending, sending, sent (\<open>markNotificationSending\<close>,
  \<open>markNotificationSent\<close>; \<open>deleteNotificationRecord\<close> only removes rows). The one
  operation that can move a status back is \<open>tryRecordNotificationAtomically\<close>, and only
  from \<open>'sending'\<close> to \<open>'pending'\<close> on a row older than five minutes, whose
  \<open>createdAt\<close> becomes the current time; its other rows are unchanged, refreshed
  \<open>'pending'\<close> rows, or the row it inserts as \<open>'pending'\<close>.
\<close>

theorem C5_status_transitions:
  assumes quiet: "others e = (\<lambda>c w. w)"
  shows "(\<forall>r' \<in> set (sentNotifications (snd (markNotificationSending e g s t w))).
            \<exists>r \<in> set (sentNotifications w). forwardStep r r')
       \<and> (\<forall>r' \<in> set (sentNotifications (snd (markNotificationSent e g s t w))).
            \<exists>r \<in> set (sentNotifications w). forwardStep r r')
       \<and> (\<forall>r' \<in> set (sentNotifications (snd (deleteNotificationRecord e g s t w))).
            r' \<in> set (sentNotifications w))
       \<and> (\<forall>r' \<in> set (sentNotifications (snd (tryRecordNotificationAtomically e g s t w))).
            (\<exists>r \<in> set (sentNotifications w).
               forwardStep r r' \<or> staleReclaimStep (clock w) r r')
            \<or> (nid r' = nextId w \<and> keyMatches g s t r' \<and> status r' = ''pending''))"
proof (intro conjI ballI)
  fix r'
  assume "r' \<in> set (sentNotifications (snd (markNotificationSending e g s t w)))"
  from markSending_forward[OF this] show "\<exists>r \<in> set (sentNotifications w). forwardStep r r'"
    by (simp add: quiet)
next
  fix r'
  assume "r' \<in> set (sentNotifications (snd (markNotificationSent e g s t w)))"
  from markSent_forward[OF this] show "\<exists>r \<in> set (sentNotifications w). forwardStep r r'"
    by (simp add: quiet)
next
  fix r'
  assume "r' \<in> set (sentNotifications (snd (deleteNotificationRecord e g s t w)))"
  from delete_forward[OF this] show "r' \<in> set (sentNotifications w)"
    by (simp add: quiet)
next
  fix r'
  assume "r' \<in> set (sentNotifications (snd (tryRecordNotificationAtomically e g s t w)))"
  from tryRecord_steps[OF quiet this]
  show "(\<exists>r \<in> set (sentNotifications w). forwardStep r r' \<or> staleReclaimStep (clock w) r r')
        \<or> (nid r' = nextId w \<and> keyMatches g s t r' \<and> status r' = ''pending'')" .
qed

lemma exStale_try:
  "tryRecordNotificationAtomically quietEnv ''g1'' ''s1'' ''24hour'' exStaleWorld =
     (Ok True, exStaleWorld\<lparr>sentNotifications := [exRow ''24hour'' ''pending'' 147600000]\<rparr>)"
  by (simp add: tryRecordNotificationAtomically_def insertPending_def reclaimSending_def
        updateWhere_def keyMatches_def quietEnv_def exStaleWorld_def exWorld_def exRow_def)

theorem C5_status_transitions_witness:
  "others quietEnv = (\<lambda>c w. w)
   \<and> sentNotifications (snd (tryRecordNotificationAtomically quietEnv ''g1'' ''s1'' ''24hour''
        exStaleWorld)) = [exRow ''24hour'' ''pending'' 147600000]
   \<and> staleReclaimStep 147600000 (exRow ''24hour'' ''sending'' 147299999)
        (exRow ''24hour'' ''pending'' 147600000)"
proof -
  have q: "others quietEnv = (\<lambda>c w. w)" by (simp add: quietEnv_def)
  have rows: "sentNotifications (snd (tryRecordNotificationAtomically quietEnv ''g1'' ''s1'' ''24hour''
        exStaleWorld)) = [exRow ''24hour'' ''pending'' 147600000]"
    by (simp add: exStale_try)
  from C5_status_transitions [OF q, of "''g1''" "''s1''" "''24hour''" exStaleWorld]
  have "\<forall>r' \<in> set (sentNotifications (snd (tryRecordNotificationAtomically quietEnv
                   ''g1'' ''s1'' ''24hour'' exStaleWorld))).
            (\<exists>r \<in> set (sentNotifications exStaleWorld).
               forwardStep r r' \<or> staleReclaimStep (clock exStaleWorld) r r')
            \<or> (nid r' = nextId exStaleWorld \<and> keyMatches ''g1'' ''s1'' ''24hour'' r' \<and>
                status r' = ''pending'')"
    by blast
  then have "forwardStep (exRow ''24hour'' ''sending'' 147299999) (exRow ''24hour'' ''pending'' 147600000)
      \<or> staleReclaimStep 147600000 (exRow ''24hour'' ''sending'' 147299999) (exRow ''24hour'' ''pending'' 147600000)
      \<or> nid (exRow ''24hour'' ''pending'' 147600000) = Suc 0"
    unfolding rows by (simp add: exStaleWorld_def exWorld_def) blast
  moreover have "\<not> forwardStep (exRow ''24hour'' ''sending'' 147299999) (exRow ''24hour'' ''pending'' 147600000)"
    by (simp add: forwardStep_def exRow_def)
  moreover have "nid (exRow ''24hour'' ''pending'' 147600000) \<noteq> Suc 0"
    by (simp add: exRow_def)
  ultimately have "staleReclaimStep 147600000 (exRow ''24hour'' ''sending'' 147299999)
        (exRow ''24hour'' ''pending'' 147600000)" by blast
  with q rows show ?thesis by blast
qed

section \<open>The delivery loops\<close>

lemma delete_clears:
  assumes "storageFails e (DeleteRecord g s t) = None"
  shows "\<exists>b w'. deleteNotificationRecord e g s t w = (Ok b, w') \<and>
           filter (keyMatches g s t) (sentNotifications w') = [] \<and>
           pushSubscriptions w' = pushSubscriptions (others e (DeleteRecord g s t) w)"
  using assms
  by (simp add: deleteNotificationRecord_def deleteWhere_def Let_def)

lemma markSending_ok:
  assumes "storageFails e (MarkSending g s t) = None"
  shows "\<exists>b w2. markNotificationSending e g s t w = (Ok b, w2)"
  using assms
  by (simp add: markNotificationSending_def Let_def split: prod.splits)

lemma notifyEmail_sends:
  assumes claim: "tryRecordNotificationAtomically e (game_id gm) (sub_id sub) kind (db st) = (Ok True, w1)"
    and mark: "markNotificationSending e (game_id gm) (sub_id sub) kind w1 = (Ok b, w2)"
  shows "\<exists>rest. calls (snd (notifyEmail e kind gm sub st)) =
           calls st @ [TryRecord (game_id gm) (sub_id sub) kind,
                       MarkSending (game_id gm) (sub_id sub) kind,
                       SendEmail kind (email sub) (game_id gm)] @ rest"
  using claim mark
  by (auto simp add: notifyEmail_def Let_def called_def pushError_def countSent_def
        split: prod.splits res.splits outcome.splits)

lemma notifyEmail_failed:
  assumes claim: "tryRecordNotificationAtomically e (game_id gm) (sub_id sub) kind (db st) = (Ok True, w1)"
    and mark: "storageFails e (MarkSending (game_id gm) (sub_id sub) kind) = None"
    and fail: "emailSend e kind (email sub) gm (unsubscribeToken sub) \<noteq> Returned True"
    and del: "storageFails e (DeleteRecord (game_id gm) (sub_id sub) kind) = None"
  shows "fst (notifyEmail e kind gm sub st) = None \<and>
         filter (keyMatches (game_id gm) (sub_id sub) kind)
           (sentNotifications (db (snd (notifyEmail e kind gm sub st)))) = [] \<and>
         (\<exists>msg. errors (result (snd (notifyEmail e kind gm sub st))) = errors (result st) @ [msg]) \<and>
         emailsSent (result (snd (notifyEmail e kind gm sub st))) = emailsSent (result st)"
proof -
  obtain b w2 where m: "markNotificationSending e (game_id gm) (sub_id sub) kind w1 = (Ok b, w2)"
    using markSending_ok[OF mark] by blast
  obtain b' w4 where d: "deleteNotificationRecord e (game_id gm) (sub_id sub) kind w2 = (Ok b', w4)"
    and c: "filter (keyMatches (game_id gm) (sub_id sub) kind) (sentNotifications w4) = []"
    using delete_clears[OF del] by blast
  show ?thesis
  proof (cases "emailSend e kind (email sub) gm (unsubscribeToken sub)")
    case (Returned x)
    with fail have "\<not> x" by simp
    with Returned claim m d c show ?thesis
      by (simp add: notifyEmail_def Let_def called_def pushError_def)
  next
    case (Threw x)
    with claim m d c show ?thesis
      by (simp add: notifyEmail_def Let_def called_def pushError_def)
  qed
qed

subsection \<open>The examples, evaluated\<close>

lemmas storage_defs = tryRecordNotificationAtomically_def insertPending_def reclaimSending_def
  reclaimPending_def updateWhere_def deleteWhere_def keyMatches_def markNotificationSending_def
  markNotificationSent_def deleteNotificationRecord_def deletePushSubscriptionByToken_def
  getAllGames_def getAllSubscriptions_def getAllPushSubscriptions_def

lemmas pass_defs = notifyEmail_def notifyPush_def processGameEmail_def processGamePush_def
  pushPhase_def checkAndSendNotifications_def called_def pushError_def countSent_def
  countSkipped_def sendPushNotification_def Let_def

lemmas ex_defs = quietEnv_def exTransientEnv_def exRaceEnv_def exWorld_def exSubscriber_def
  exPush_def exState_def exRow_def

lemma exGame_window: "needs24HourNotification (gameDateTime exGame) 147600000"
  "\<not> needsMorningNotification (gameDateTime exGame) 147600000"
  by (simp_all add: exGame_dt needs24_ms morning_ms isSameDay_def startOfDay_def)

lemma exGame_fields: "game_id exGame = ''g1''" "sport exGame = ''Football''"
  "opponent exGame = ''Essex''" "time exGame = ''7:00 PM''" "location exGame = ''Field''"
  "isHome exGame = ''home''"
  by (simp_all add: exGame_def)

lemma exTransient_push:
  "notifyPush exTransientEnv True exGame exPush (exState exWorld) =
     (None, \<lparr>db = exWorld\<lparr>pushSubscriptions := [], nextId := 1\<rparr>,
             result = \<lparr>gamesIn24Hours = 0, gamesMorningOf = 0, emailsSent = 0,
                          skippedDuplicates = 0, errors = []\<rparr>,
             calls = [TryRecord ''g1'' ''p1'' ''24hour-push'',
        SendPush ''tok1'' ''Game Tomorrow: Football''
         ''Lakers vs Essex at 7:00 PM | Home - Field'',
        DeleteRecord ''g1'' ''p1'' ''24hour-push'',
        DeletePushSubscriptionByToken ''tok1'']\<rparr>)"
  by (simp add: pass_defs storage_defs ex_defs exGame_fields)

lemma exTransient_pass:
  "checkAndSendNotifications exTransientEnv exWorld =
     \<lparr>db = exWorld\<lparr>pushSubscriptions := [],
                   sentNotifications := [\<lparr>nid = 0, gameId = ''g1'', subscriptionId = ''s1'',
      notificationType = ''24hour'', status = ''sent'',
      createdAt = 147600000, sentAt = Some 147600000\<rparr>], nextId := 2\<rparr>,
             result = \<lparr>gamesIn24Hours = 1, gamesMorningOf = 0, emailsSent = 1,
                          skippedDuplicates = 0, errors = []\<rparr>,
             calls = [GetAllGames, GetAllSubscriptions, TryRecord ''g1'' ''s1'' ''24hour'',
   MarkSending ''g1'' ''s1'' ''24hour'',
   SendEmail ''24hour'' ''fan@example.org'' ''g1'',
   MarkSent ''g1'' ''s1'' ''24hour'', GetAllPushSubscriptions,
   TryRecord ''g1'' ''p1'' ''24hour-push'',
   SendPush ''tok1'' ''Game Tomorrow: Football''
    ''Lakers vs Essex at 7:00 PM | Home - Field'',
   DeleteRecord ''g1'' ''p1'' ''24hour-push'',
   DeletePushSubscriptionByToken ''tok1'']\<rparr>"
  by (simp add: pass_defs storage_defs ex_defs exGame_fields exGame_window)

lemma exEmailFail_notify:
  "notifyEmail exEmailFailEnv ''24hour'' exGame exSubscriber (exState exWorld) =
     (None, \<lparr>db = exWorld\<lparr>nextId := 1\<rparr>,
             result = \<lparr>gamesIn24Hours = 0, gamesMorningOf = 0, emailsSent = 0,
                       skippedDuplicates = 0,
                       errors = [''Email delivery failed for fan@example.org - will retry on next check'']\<rparr>,
             calls = [TryRecord ''g1'' ''s1'' ''24hour'', MarkSending ''g1'' ''s1'' ''24hour'',
                      SendEmail ''24hour'' ''fan@example.org'' ''g1'',
                      DeleteRecord ''g1'' ''s1'' ''24hour'']\<rparr>)"
  by (simp add: pass_defs storage_defs ex_defs exEmailFailEnv_def exGame_fields)

lemma exRow_status: "status (exRow kind st created) = st"
  by (simp add: exRow_def)

lemma exRace_claim:
  "tryRecordNotificationAtomically exRaceEnv ''g1'' ''s1'' ''24hour'' exWorld =
     (Ok True, exWorld\<lparr>sentNotifications := [exRow ''24hour'' ''pending'' 147600000], nextId := Suc 0\<rparr>)"
  by (simp add: storage_defs ex_defs)

lemma exRace_mark:
  "markNotificationSending exRaceEnv ''g1'' ''s1'' ''24hour''
     (exWorld\<lparr>sentNotifications := [exRow ''24hour'' ''pending'' 147600000], nextId := Suc 0\<rparr>) =
     (Ok False, exWorld\<lparr>sentNotifications := [exRow ''24hour'' ''sent'' 147600000], nextId := Suc 0\<rparr>)"
  by (simp add: storage_defs ex_defs Let_def)

lemma exRace_notify:
  "notifyEmail exRaceEnv ''24hour'' exGame exSubscriber (exState exWorld) =
     (None, \<lparr>db = exWorld\<lparr>sentNotifications :=
                      [\<lparr>nid = 0, gameId = ''g1'', subscriptionId = ''s1'',
                        notificationType = ''24hour'', status = ''sent'',
                        createdAt = 147600000, sentAt = Some 147600000\<rparr>], nextId := 1\<rparr>,
             result = \<lparr>gamesIn24Hours = 0, gamesMorningOf = 0, emailsSent = 1,
                       skippedDuplicates = 0, errors = []\<rparr>,
             calls = [TryRecord ''g1'' ''s1'' ''24hour'', MarkSending ''g1'' ''s1'' ''24hour'',
                      SendEmail ''24hour'' ''fan@example.org'' ''g1'',
                      MarkSent ''g1'' ''s1'' ''24hour'']\<rparr>)"
  by (simp add: pass_defs storage_defs ex_defs exGame_fields)

lemma exQuiet_push:
  "notifyPush quietEnv True exGame exPush (exState exWorld) =
     (None, \<lparr>db = exWorld\<lparr>sentNotifications :=
                      [\<lparr>nid = 0, gameId = ''g1'', subscriptionId = ''p1'',
                        notificationType = ''24hour-push'', status = ''sent'',
                        createdAt = 147600000, sentAt = Some 147600000\<rparr>], nextId := 1\<rparr>,
             result = \<lparr>gamesIn24Hours = 0, gamesMorningOf = 0, emailsSent = 1,
                       skippedDuplicates = 0, errors = []\<rparr>,
             calls = [TryRecord ''g1'' ''p1'' ''24hour-push'',
                      SendPush ''tok1'' ''Game Tomorrow: Football''
                        ''Lakers vs Essex at 7:00 PM | Home - Field'',
                      MarkSent ''g1'' ''p1'' ''24hour-push'']\<rparr>)"
  by (simp add: pass_defs storage_defs ex_defs exGame_fields)

lemma exQuiet_email:
  "notifyEmail quietEnv ''24hour'' exGame exSubscriber (exState exWorld) =
     (None, \<lparr>db = exWorld\<lparr>sentNotifications :=
                      [\<lparr>nid = 0, gameId = ''g1'', subscriptionId = ''s1'',
                        notificationType = ''24hour'', status = ''sent'',
                        createdAt = 147600000, sentAt = Some 147600000\<rparr>], nextId := 1\<rparr>,
             result = \<lparr>gamesIn24Hours = 0, gamesMorningOf = 0, emailsSent = 1,
                       skippedDuplicates = 0, errors = []\<rparr>,
             calls = [TryRecord ''g1'' ''s1'' ''24hour'', MarkSending ''g1'' ''s1'' ''24hour'',
                      SendEmail ''24hour'' ''fan@example.org'' ''g1'',
                      MarkSent ''g1'' ''s1'' ''24hour'']\<rparr>)"
  by (simp add: pass_defs storage_defs ex_defs exGame_fields)

lemma exNoSubs_pass:
  "checkAndSendNotifications quietEnv (exWorld\<lparr>subscriptions := []\<rparr>) =
     \<lparr>db = exWorld\<lparr>subscriptions := []\<rparr>,
      result = \<lparr>gamesIn24Hours = 0, gamesMorningOf = 0, emailsSent = 0,
                skippedDuplicates = 0, errors = []\<rparr>,
      calls = [GetAllGames, GetAllSubscriptions]\<rparr>"
  by (simp add: pass_defs storage_defs ex_defs)

lemma exOtherSport_pass:
  "calls (checkAndSendNotifications quietEnv
            (exWorld\<lparr>subscriptions := [exSubscriber\<lparr>sub_sports := [''Chess'']\<rparr>]\<rparr>)) =
     [GetAllGames, GetAllSubscriptions, GetAllPushSubscriptions,
      TryRecord ''g1'' ''p1'' ''24hour-push'',
      SendPush ''tok1'' ''Game Tomorrow: Football'' ''Lakers vs Essex at 7:00 PM | Home - Field'',
      MarkSent ''g1'' ''p1'' ''24hour-push'']"
  by (simp add: pass_defs storage_defs ex_defs exGame_fields exGame_window)

subsection \<open>Failed deliveries\<close>

text \<open>
  C3, on the code. The claim of (\<open>g1\<close>, \<open>p1\<close>, \<open>'24hour-push'\<close>) succeeds and
  \<open>sendPushNotification\<close> answers false. The push loop deletes the claim record and
  the push target, and the error list of the pass stays empty: the failure is not
  recorded. The email loop, after a failed delivery on the same game, appends its error.
\<close>

theorem C3_push_failure_not_recorded:
  "fst (tryRecordNotificationAtomically exTransientEnv ''g1'' ''p1'' ''24hour-push'' exWorld) = Ok True
   \<and> sendPushNotification exTransientEnv ''tok1'' ''Game Tomorrow: Football''
        ''Lakers vs Essex at 7:00 PM | Home - Field'' = False
   \<and> calls (snd (notifyPush exTransientEnv True exGame exPush (exState exWorld))) =
        [TryRecord ''g1'' ''p1'' ''24hour-push'',
         SendPush ''tok1'' ''Game Tomorrow: Football'' ''Lakers vs Essex at 7:00 PM | Home - Field'',
         DeleteRecord ''g1'' ''p1'' ''24hour-push'',
         DeletePushSubscriptionByToken ''tok1'']
   \<and> sentNotifications (db (snd (notifyPush exTransientEnv True exGame exPush (exState exWorld)))) = []
   \<and> errors (result (snd (notifyPush exTransientEnv True exGame exPush (exState exWorld)))) = []
   \<and> errors (result (checkAndSendNotifications exTransientEnv exWorld)) = []
   \<and> errors (result (snd (notifyEmail exEmailFailEnv ''24hour'' exGame exSubscriber
        (exState exWorld)))) = [''Email delivery failed for fan@example.org - will retry on next check'']"
  by (simp add: exTransient_push exTransient_pass exEmailFail_notify)
     (simp add: storage_defs ex_defs sendPushNotification_def)

subsection \<open>The order of the calls\<close>

text \<open>
  C10. In the email loops, when the claim succeeded and \<open>markNotificationSending\<close>
  returned without throwing, the email sender is called next, whatever boolean
  \<open>markNotificationSending\<close> returned. There is a run in which it returned false
  (another worker had already moved the row on), no row is \<open>'sending'\<close>, and the
  email is sent and counted all the same.
\<close>

theorem C10_markSending_result_ignored:
  "(tryRecordNotificationAtomically e (game_id gm) (sub_id sub) kind (db st) = (Ok True, w1) \<and>
    markNotificationSending e (game_id gm) (sub_id sub) kind w1 = (Ok b, w2)
    \<longrightarrow> (\<exists>rest. calls (snd (notifyEmail e kind gm sub st)) =
           calls st @ [TryRecord (game_id gm) (sub_id sub) kind,
                       MarkSending (game_id gm) (sub_id sub) kind,
                       SendEmail kind (email sub) (game_id gm)] @ rest))
   \<and> (\<exists>e gm sub st w1 w2.
         tryRecordNotificationAtomically e (game_id gm) (sub_id sub) ''24hour'' (db st) = (Ok True, w1) \<and>
         markNotificationSending e (game_id gm) (sub_id sub) ''24hour'' w1 = (Ok False, w2) \<and>
         filter (\<lambda>r. status r = ''sending'') (sentNotifications w2) = [] \<and>
         SendEmail ''24hour'' (email sub) (game_id gm)
           \<in> set (calls (snd (notifyEmail e ''24hour'' gm sub st))) \<and>
         emailsSent (result (snd (notifyEmail e ''24hour'' gm sub st))) = emailsSent (result st) + 1)"
proof (intro conjI impI)
  assume "tryRecordNotificationAtomically e (game_id gm) (sub_id sub) kind (db st) = (Ok True, w1) \<and>
    markNotificationSending e (game_id gm) (sub_id sub) kind w1 = (Ok b, w2)"
  then show "\<exists>rest. calls (snd (notifyEmail e kind gm sub st)) =
           calls st @ [TryRecord (game_id gm) (sub_id sub) kind,
                       MarkSending (game_id gm) (sub_id sub) kind,
                       SendEmail kind (email sub) (game_id gm)] @ rest"
    using notifyEmail_sends by blast
next
  have "tryRecordNotificationAtomically exRaceEnv (game_id exGame) (sub_id exSubscriber) ''24hour''
           (db (exState exWorld)) =
          (Ok True, exWorld\<lparr>sentNotifications := [exRow ''24hour'' ''pending'' 147600000], nextId := 1\<rparr>) \<and>
        markNotificationSending exRaceEnv (game_id exGame) (sub_id exSubscriber) ''24hour''
           (exWorld\<lparr>sentNotifications := [exRow ''24hour'' ''pending'' 147600000], nextId := 1\<rparr>) =
          (Ok False, exWorld\<lparr>sentNotifications := [exRow ''24hour'' ''sent'' 147600000], nextId := 1\<rparr>) \<and>
        filter (\<lambda>r. status r = ''sending'')
          (sentNotifications (exWorld\<lparr>sentNotifications := [exRow ''24hour'' ''sent'' 147600000], nextId := 1\<rparr>)) = [] \<and>
        SendEmail ''24hour'' (email exSubscriber) (game_id exGame)
           \<in> set (calls (snd (notifyEmail exRaceEnv ''24hour'' exGame exSubscriber (exState exWorld)))) \<and>
        emailsSent (result (snd (notifyEmail exRaceEnv ''24hour'' exGame exSubscriber (exState exWorld))))
          = emailsSent (result (exState exWorld)) + 1"
    by (simp add: exRace_notify)
       (simp add: exGame_fields exSubscriber_def exState_def exRace_claim exRace_mark exRow_status)
  then show "\<exists>e gm sub st w1 w2.
         tryRecordNotificationAtomically e (game_id gm) (sub_id sub) ''24hour'' (db st) = (Ok True, w1) \<and>
         markNotificationSending e (game_id gm) (sub_id sub) ''24hour'' w1 = (Ok False, w2) \<and>
         filter (\<lambda>r. status r = ''sending'') (sentNotifications w2) = [] \<and>
         SendEmail ''24hour'' (email sub) (game_id gm)
           \<in> set (calls (snd (notifyEmail e ''24hour'' gm sub st))) \<and>
         emailsSent (result (snd (notifyEmail e ''24hour'' gm sub st))) = emailsSent (result st) + 1"
    by blast
qed

text \<open>The run of the example: the other worker marks the row \<open>'sent'\<close> between the
  claim and \<open>markNotificationSending\<close>.\<close>

theorem C10_markSending_result_ignored_witness:
  "fst (tryRecordNotificationAtomically exRaceEnv ''g1'' ''s1'' ''24hour'' exWorld) = Ok True
   \<and> fst (markNotificationSending exRaceEnv ''g1'' ''s1'' ''24hour''
       (snd (tryRecordNotificationAtomically exRaceEnv ''g1'' ''s1'' ''24hour'' exWorld))) = Ok False
   \<and> (\<exists>rest. calls (snd (notifyEmail exRaceEnv ''24hour'' exGame exSubscriber (exState exWorld))) =
         [TryRecord ''g1'' ''s1'' ''24hour'', MarkSending ''g1'' ''s1'' ''24hour'',
          SendEmail ''24hour'' ''fan@example.org'' ''g1''] @ rest)
   \<and> emailsSent (result (snd (notifyEmail exRaceEnv ''24hour'' exGame exSubscriber
        (exState exWorld)))) = 1"
proof -
  have h: "tryRecordNotificationAtomically exRaceEnv (game_id exGame) (sub_id exSubscriber) ''24hour''
           (db (exState exWorld)) =
          (Ok True, exWorld\<lparr>sentNotifications := [exRow ''24hour'' ''pending'' 147600000], nextId := 1\<rparr>) \<and>
        markNotificationSending exRaceEnv (game_id exGame) (sub_id exSubscriber) ''24hour''
           (exWorld\<lparr>sentNotifications := [exRow ''24hour'' ''pending'' 147600000], nextId := 1\<rparr>) =
          (Ok False, exWorld\<lparr>sentNotifications := [exRow ''24hour'' ''sent'' 147600000], nextId := 1\<rparr>)"
    by (simp add: exGame_fields exSubscriber_def exState_def exRace_claim exRace_mark)
  from C10_markSending_result_ignored h
  have "\<exists>rest. calls (snd (notifyEmail exRaceEnv ''24hour'' exGame exSubscriber (exState exWorld))) =
           calls (exState exWorld) @ [TryRecord (game_id exGame) (sub_id exSubscriber) ''24hour'',
                       MarkSending (game_id exGame) (sub_id exSubscriber) ''24hour'',
                       SendEmail ''24hour'' (email exSubscriber) (game_id exGame)] @ rest"
    by blast
  then have c: "\<exists>rest. calls (snd (notifyEmail exRaceEnv ''24hour'' exGame exSubscriber (exState exWorld))) =
         [TryRecord ''g1'' ''s1'' ''24hour'', MarkSending ''g1'' ''s1'' ''24hour'',
          SendEmail ''24hour'' ''fan@example.org'' ''g1''] @ rest"
    by (simp add: exGame_fields exSubscriber_def exState_def)
  have "emailsSent (result (snd (notifyEmail exRaceEnv ''24hour'' exGame exSubscriber
        (exState exWorld)))) = 1"
    by (simp add: exRace_notify)
  with c show ?thesis
    by (simp add: exRace_claim exRace_mark)
qed

text \<open>
  C6, on the code. For one game in the 24-hour window and one interested push target,
  the push loop calls \<open>tryRecordNotificationAtomically\<close>, then the push transport,
  then \<open>markNotificationSent\<close>: \<open>markNotificationSending\<close> is not called between
  the claim and the delivery. The email loop, on the same game, calls it.
\<close>

theorem C6_push_path_skips_markSending:
  "calls (snd (notifyPush quietEnv True exGame exPush (exState exWorld))) =
     [TryRecord ''g1'' ''p1'' ''24hour-push'',
      SendPush ''tok1'' ''Game Tomorrow: Football'' ''Lakers vs Essex at 7:00 PM | Home - Field'',
      MarkSent ''g1'' ''p1'' ''24hour-push'']
   \<and> calls (snd (notifyEmail quietEnv ''24hour'' exGame exSubscriber (exState exWorld))) =
     [TryRecord ''g1'' ''s1'' ''24hour'', MarkSending ''g1'' ''s1'' ''24hour'',
      SendEmail ''24hour'' ''fan@example.org'' ''g1'', MarkSent ''g1'' ''s1'' ''24hour'']"
  by (simp add: exQuiet_push exQuiet_email)

text \<open>
  C7, on the code. Firebase rejects the message with \<open>messaging/internal-error\<close>,
  which is neither of the two codes of an invalid token; \<open>sendPushNotification\<close>
  answers false as it does for those, and the push loop deletes the push target.
\<close>

theorem C7_transient_failure_deletes_target:
  "messagingSend exTransientEnv ''tok1'' ''Game Tomorrow: Football''
      ''Lakers vs Essex at 7:00 PM | Home - Field'' = Some ''messaging/internal-error''
   \<and> ''messaging/internal-error'' \<noteq> ''messaging/registration-token-not-registered''
   \<and> ''messaging/internal-error'' \<noteq> ''messaging/invalid-registration-token''
   \<and> pushSubscriptions exWorld = [exPush]
   \<and> pushSubscriptions (db (snd (notifyPush exTransientEnv True exGame exPush (exState exWorld)))) = []
   \<and> pushSubscriptions (db (checkAndSendNotifications exTransientEnv exWorld)) = []"
  by (simp add: exTransient_push exTransient_pass)
     (simp add: ex_defs)

text \<open>
  C9, on the code. The example game is in the 24-hour window and the push target is
  interested in its sport. With an empty list of email subscriptions the pass returns
  after loading the subscriptions and the push transport is not called; with one email
  subscription, of another sport, the push is sent.
\<close>

theorem C9_empty_email_list_suppresses_push:
  "needs24HourNotification (gameDateTime exGame) (clock exWorld)
   \<and> games exWorld = [exGame]
   \<and> pushSubscriptions exWorld = [exPush]
   \<and> sport exGame \<in> set (push_sports exPush)
   \<and> calls (checkAndSendNotifications quietEnv (exWorld\<lparr>subscriptions := []\<rparr>)) =
        [GetAllGames, GetAllSubscriptions]
   \<and> emailsSent (result (checkAndSendNotifications quietEnv (exWorld\<lparr>subscriptions := []\<rparr>))) = 0
   \<and> calls (checkAndSendNotifications quietEnv
            (exWorld\<lparr>subscriptions := [exSubscriber\<lparr>sub_sports := [''Chess'']\<rparr>]\<rparr>)) =
        [GetAllGames, GetAllSubscriptions, GetAllPushSubscriptions,
         TryRecord ''g1'' ''p1'' ''24hour-push'',
         SendPush ''tok1'' ''Game Tomorrow: Football'' ''Lakers vs Essex at 7:00 PM | Home - Field'',
         MarkSent ''g1'' ''p1'' ''24hour-push'']"
  by (simp add: exNoSubs_pass exOtherSport_pass)
     (simp add: ex_defs exGame_fields exGame_window)

end
